theory Spec2Isabelle
  imports Complex_Main
begin

section \<open>JavaScript numbers\<close>

text \<open>
  Every number of \<^verbatim>\<open>drawField.js\<close> is a JavaScript number. The model keeps the
  special values of that type, because the program can produce them (a division by a
  zero range, a read of an array slot that does not exist) and its comparisons answer
  false on \<open>NaN\<close>. A finite number is a real: the arithmetic of finite numbers is exact
  in the model (the rounding of binary floating point is not represented), and the two
  zeros are one value, read as \<open>+0\<close> where the sign matters (every divisor of the program
  is a difference, a square root or a grid dimension).
\<close>

datatype jsnum = NaN | Num real | PosInf | NegInf

fun jneg :: "jsnum \<Rightarrow> jsnum" where
  "jneg NaN = NaN"
| "jneg (Num a) = Num (- a)"
| "jneg PosInf = NegInf"
| "jneg NegInf = PosInf"

fun jadd :: "jsnum \<Rightarrow> jsnum \<Rightarrow> jsnum" where
  "jadd NaN _ = NaN"
| "jadd _ NaN = NaN"
| "jadd (Num a) (Num b) = Num (a + b)"
| "jadd (Num _) PosInf = PosInf"
| "jadd (Num _) NegInf = NegInf"
| "jadd PosInf (Num _) = PosInf"
| "jadd NegInf (Num _) = NegInf"
| "jadd PosInf PosInf = PosInf"
| "jadd NegInf NegInf = NegInf"
| "jadd PosInf NegInf = NaN"
| "jadd NegInf PosInf = NaN"

definition jsub :: "jsnum \<Rightarrow> jsnum \<Rightarrow> jsnum" where
  "jsub a b = jadd a (jneg b)"

text \<open>The sign of an infinite product or quotient: \<open>signed s\<close> is \<open>+Infinity\<close> for a
  positive \<open>s\<close>, \<open>-Infinity\<close> for a negative one, and \<open>NaN\<close> for zero (\<open>0 * Infinity\<close>).\<close>

definition signed :: "real \<Rightarrow> jsnum" where
  "signed s = (if s = 0 then NaN else if 0 < s then PosInf else NegInf)"

fun jmul :: "jsnum \<Rightarrow> jsnum \<Rightarrow> jsnum" where
  "jmul NaN _ = NaN"
| "jmul _ NaN = NaN"
| "jmul (Num a) (Num b) = Num (a * b)"
| "jmul (Num a) PosInf = signed a"
| "jmul (Num a) NegInf = signed (- a)"
| "jmul PosInf (Num b) = signed b"
| "jmul NegInf (Num b) = signed (- b)"
| "jmul PosInf PosInf = PosInf"
| "jmul NegInf NegInf = PosInf"
| "jmul PosInf NegInf = NegInf"
| "jmul NegInf PosInf = NegInf"

fun jdiv :: "jsnum \<Rightarrow> jsnum \<Rightarrow> jsnum" where
  "jdiv NaN _ = NaN"
| "jdiv _ NaN = NaN"
| "jdiv (Num a) (Num b) = (if b = 0 then signed a else Num (a / b))"
| "jdiv (Num _) PosInf = Num 0"
| "jdiv (Num _) NegInf = Num 0"
| "jdiv PosInf (Num b) = (if 0 \<le> b then PosInf else NegInf)"
| "jdiv NegInf (Num b) = (if 0 \<le> b then NegInf else PosInf)"
| "jdiv PosInf PosInf = NaN"
| "jdiv NegInf NegInf = NaN"
| "jdiv PosInf NegInf = NaN"
| "jdiv NegInf PosInf = NaN"

text \<open>The remainder \<^verbatim>\<open>a % b\<close>: the sign of the dividend, the quotient truncated
  towards zero.\<close>

definition trunc :: "real \<Rightarrow> int" where
  "trunc q = (if 0 \<le> q then \<lfloor>q\<rfloor> else \<lceil>q\<rceil>)"

fun jmod :: "jsnum \<Rightarrow> jsnum \<Rightarrow> jsnum" where
  "jmod (Num a) (Num b) = (if b = 0 then NaN else Num (a - b * of_int (trunc (a / b))))"
| "jmod (Num a) PosInf = Num a"
| "jmod (Num a) NegInf = Num a"
| "jmod _ _ = NaN"

text \<open>Comparisons: false as soon as one side is \<open>NaN\<close>.\<close>

fun jlt :: "jsnum \<Rightarrow> jsnum \<Rightarrow> bool" where
  "jlt NaN _ = False"
| "jlt _ NaN = False"
| "jlt (Num a) (Num b) = (a < b)"
| "jlt (Num _) PosInf = True"
| "jlt NegInf (Num _) = True"
| "jlt NegInf PosInf = True"
| "jlt _ _ = False"

fun jle :: "jsnum \<Rightarrow> jsnum \<Rightarrow> bool" where
  "jle NaN _ = False"
| "jle _ NaN = False"
| "jle (Num a) (Num b) = (a \<le> b)"
| "jle _ PosInf = True"
| "jle NegInf _ = True"
| "jle _ _ = False"

definition jgt :: "jsnum \<Rightarrow> jsnum \<Rightarrow> bool" where
  "jgt a b = jlt b a"

definition jge :: "jsnum \<Rightarrow> jsnum \<Rightarrow> bool" where
  "jge a b = jle b a"

text \<open>\<^verbatim>\<open>Math.floor\<close>, \<^verbatim>\<open>Math.ceil\<close>, \<^verbatim>\<open>Math.round\<close> (halves go up) and
  \<^verbatim>\<open>Math.sqrt\<close>.\<close>

fun jfloor :: "jsnum \<Rightarrow> jsnum" where
  "jfloor (Num a) = Num (of_int \<lfloor>a\<rfloor>)"
| "jfloor n = n"

fun jceil :: "jsnum \<Rightarrow> jsnum" where
  "jceil (Num a) = Num (of_int \<lceil>a\<rceil>)"
| "jceil n = n"

fun jround :: "jsnum \<Rightarrow> jsnum" where
  "jround (Num a) = Num (of_int \<lfloor>a + 1 / 2\<rfloor>)"
| "jround n = n"

fun jsqrt :: "jsnum \<Rightarrow> jsnum" where
  "jsqrt (Num a) = (if a < 0 then NaN else Num (sqrt a))"
| "jsqrt PosInf = PosInf"
| "jsqrt _ = NaN"

text \<open>The finite numbers, and the whole ones: a number that is not finite counts as
  whole, as \<^verbatim>\<open>Math.floor\<close> returns it unchanged.\<close>

fun is_finite :: "jsnum \<Rightarrow> bool" where
  "is_finite (Num _) = True"
| "is_finite _ = False"

fun whole :: "jsnum \<Rightarrow> bool" where
  "whole (Num a) = (of_int \<lfloor>a\<rfloor> = a)"
| "whole _ = True"

text \<open>A grid dimension or a loop counter, an integer of the program, as a number.\<close>

definition of_count :: "int \<Rightarrow> jsnum" where
  "of_count n = Num (of_int n)"

text \<open>
  Reading an array at a number, \<^verbatim>\<open>a[i]\<close>: the element when \<open>i\<close> is an integer
  within the array, \<^verbatim>\<open>undefined\<close> otherwise. Every read of the program goes
  into arithmetic, where \<^verbatim>\<open>undefined\<close> is \<open>NaN\<close>, so the model reads \<open>NaN\<close> there.
\<close>

fun js_index :: "jsnum list \<Rightarrow> jsnum \<Rightarrow> jsnum" where
  "js_index xs (Num i) =
     (if of_int \<lfloor>i\<rfloor> = i \<and> 0 \<le> i \<and> nat \<lfloor>i\<rfloor> < length xs then xs ! nat \<lfloor>i\<rfloor> else NaN)"
| "js_index xs _ = NaN"

text \<open>
  Writing an array at a counter, \<^verbatim>\<open>a[i] = v\<close>: in place within the array; past
  its end the array grows, and the slots skipped are holes (read as \<^verbatim>\<open>undefined\<close>).
\<close>

definition js_store :: "jsnum list \<Rightarrow> nat \<Rightarrow> jsnum \<Rightarrow> jsnum list" where
  "js_store xs i w =
     (if i < length xs then xs[i := w] else xs @ replicate (i - length xs) NaN @ [w])"

section \<open>The data of one rendering job\<close>

text \<open>
  The constants and variables of \<^verbatim>\<open>processItem\<close> (lines 41 to 77): the size of the
  canvas, the dataset, the ranges, \<^verbatim>\<open>maxVelocity\<close>, the grid and the bounding box.
  The grid dimensions \<^verbatim>\<open>Ni\<close> and \<^verbatim>\<open>Nj\<close> are integers.
  A point or a vector is an object \<^verbatim>\<open>{x, y}\<close> (fields \<open>px\<close> and \<open>py\<close> here). One
  component of a dataset is \<^verbatim>\<open>{values, Ni, Nj, minimum, maximum}\<close> (\<open>vals\<close> for
  \<^verbatim>\<open>values\<close>), a dataset is \<^verbatim>\<open>{u, v}\<close>. The functions nested in
  \<^verbatim>\<open>processItem\<close> read the variables of its scope; the record \<open>env\<close> holds the ones
  they read, and each function takes it as its first argument.
\<close>

record point =
  px :: jsnum
  py :: jsnum

record component =
  vals :: "jsnum list"
  Ni :: int
  Nj :: int
  minimum :: jsnum
  maximum :: jsnum

record dataset =
  data_u :: component
  data_v :: component

record env =
  width :: int
  height :: int
  vfData :: "jsnum list"
  uMax :: jsnum
  uMin :: jsnum
  vMax :: jsnum
  vMin :: jsnum

record box =
  box_left :: jsnum
  box_top :: jsnum
  box_width :: jsnum
  box_height :: jsnum

definition canvasWidth :: jsnum where
  "canvasWidth = Num 1280"

definition canvasHeight :: jsnum where
  "canvasHeight = Num 720"

definition maxVelocity :: "env \<Rightarrow> jsnum" where
  "maxVelocity e = jsqrt (jadd (jmul (uMax e) (uMax e)) (jmul (vMax e) (vMax e)))"

definition boundingBox :: "env \<Rightarrow> box" where
  "boundingBox e =
     \<lparr>box_left = Num 0, box_top = Num 0,
      box_width = of_count (width e), box_height = of_count (height e)\<rparr>"

subsection \<open>Loading: the normalised grid\<close>

text \<open>
  The loop of lines 63 to 70 fills \<^verbatim>\<open>vfData\<close>.
  The two expressions of the loading loop and of the sampler that the range of a
  component enters: \<^verbatim>\<open>(value - minimum) / (maximum - minimum)\<close> when the grid is
  filled, \<^verbatim>\<open>value * (max - min) + min\<close> when a sample is returned.
\<close>

definition normalise :: "jsnum \<Rightarrow> jsnum \<Rightarrow> jsnum \<Rightarrow> jsnum" where
  "normalise w lo hi = jdiv (jsub w lo) (jsub hi lo)"

definition denormalise :: "jsnum \<Rightarrow> jsnum \<Rightarrow> jsnum \<Rightarrow> jsnum" where
  "denormalise w lo hi = jadd (jmul w (jsub hi lo)) lo"

text \<open>The body of the inner loop, for the row \<open>row\<close> and the column \<open>col\<close>: the two
  writes at \<^verbatim>\<open>i = (y * width + x) * 2\<close>, read at
  \<^verbatim>\<open>k = y * width + ((x + width / 2) % width)\<close>.\<close>

definition fill_cell :: "dataset \<Rightarrow> int \<Rightarrow> nat \<Rightarrow> jsnum list \<Rightarrow> nat \<Rightarrow> jsnum list" where
  "fill_cell d w row a col =
     (let i = (row * nat w + col) * 2;
          k = jadd (jmul (of_count (int row)) (of_count w))
                (jmod (jadd (of_count (int col)) (jdiv (of_count w) (Num 2))) (of_count w));
          a1 = js_store a (i + 0)
                 (normalise (js_index (vals (data_u d)) k)
                    (minimum (data_u d)) (maximum (data_u d)))
      in js_store a1 (i + 1)
           (normalise (js_index (vals (data_v d)) k)
              (minimum (data_v d)) (maximum (data_v d))))"

text \<open>The two loops, \<open>y\<close> from 0 while \<open>y < height\<close> and inside it \<open>x\<close> from 0 while
  \<open>x < width\<close>, starting from the empty array.\<close>

definition fill_row :: "dataset \<Rightarrow> int \<Rightarrow> jsnum list \<Rightarrow> nat \<Rightarrow> jsnum list" where
  "fill_row d w a row = foldl (fill_cell d w row) a [0 ..< nat w]"

definition fill_grid :: "dataset \<Rightarrow> int \<Rightarrow> int \<Rightarrow> jsnum list" where
  "fill_grid d w h = foldl (fill_row d w) [] [0 ..< nat h]"

text \<open>The variables \<^verbatim>\<open>processItem\<close> sets up from the dataset (lines 51 to 70).\<close>

definition processItem_env :: "dataset \<Rightarrow> env" where
  "processItem_env d =
     \<lparr>width = Ni (data_u d),
      height = Nj (data_u d) - 1,
      vfData = fill_grid d (Ni (data_u d)) (Nj (data_u d) - 1),
      uMax = maximum (data_u d),
      uMin = minimum (data_u d),
      vMax = maximum (data_v d),
      vMin = minimum (data_v d)\<rparr>"

section \<open>The field sampler\<close>

text \<open>
  The functions nested in \<^verbatim>\<open>processItem\<close> of \<^verbatim>\<open>src/code/drawField.js\<close>:
  \<^verbatim>\<open>outside\<close> (lines 139 to 141), \<^verbatim>\<open>getXY\<close> (lines 128 to 136), \<^verbatim>\<open>mix\<close>
  (lines 144 to 149) and \<^verbatim>\<open>vectorField\<close> (lines 96 to 125). The arguments \<open>x\<close> and
  \<open>y\<close> of the first two are \<open>col\<close> and \<open>row\<close> here.
\<close>

definition outside :: "env \<Rightarrow> jsnum \<Rightarrow> jsnum \<Rightarrow> bool" where
  "outside e col row =
     (jlt col (Num 0) \<or> jge col (of_count (width e)) \<or>
      jlt row (Num 0) \<or> jge row (of_count (height e)))"

text \<open>\<^verbatim>\<open>getXY\<close> returns nothing outside of the grid (\<open>None\<close> is \<^verbatim>\<open>undefined\<close>).\<close>

definition getXY :: "env \<Rightarrow> jsnum \<Rightarrow> jsnum \<Rightarrow> point option" where
  "getXY e col row =
     (if outside e col row then None
      else let idx = jmul (jadd col (jmul row (of_count (width e)))) (Num 2)
           in Some \<lparr>px = js_index (vfData e) idx,
                    py = js_index (vfData e) (jadd idx (Num 1))\<rparr>)"

definition mix :: "point \<Rightarrow> point \<Rightarrow> jsnum \<Rightarrow> point" where
  "mix a b ratio =
     \<lparr>px = jadd (jmul (px a) ratio) (jmul (jsub (Num 1) ratio) (px b)),
      py = jadd (jmul (py a) ratio) (jmul (jsub (Num 1) ratio) (py b))\<rparr>"

text \<open>
  The first lines of \<^verbatim>\<open>vectorField\<close>: the four indices \<open>(lx, ly, ux, uy)\<close> after the
  substitutions at the edges. The second substitution reads the \<open>lx\<close> the first one
  may have changed, and the fourth the \<open>ly\<close> of the third.
\<close>

definition indices :: "env \<Rightarrow> point \<Rightarrow> jsnum \<times> jsnum \<times> jsnum \<times> jsnum" where
  "indices e p =
     (let lx0 = jfloor (px p);
          ly0 = jfloor (py p);
          ux0 = jceil (px p);
          uy0 = jceil (py p);
          lx = (if jlt lx0 (Num 0) then ux0 else lx0);
          ux = (if jge ux0 (of_count (width e)) then lx else ux0);
          ly = (if jlt ly0 (Num 0) then uy0 else ly0);
          uy = (if jgt uy0 (of_count (height e)) then ly else uy0)
      in (lx, ly, ux, uy))"

definition vectorField :: "env \<Rightarrow> point \<Rightarrow> point option" where
  "vectorField e p =
     (case indices e p of (lx, ly, ux, uy) \<Rightarrow>
        if outside e lx ly \<or> outside e ux uy then None
        else
          (case (getXY e lx ly, getXY e (jadd lx (Num 1)) ly,
                 getXY e lx (jadd ly (Num 1)), getXY e (jadd lx (Num 1)) (jadd ly (Num 1))) of
             (Some tl', Some tr', Some bl', Some br') \<Rightarrow>
               (let res = mix (mix tl' tr' (jsub (px p) lx)) (mix bl' br' (jsub (px p) lx))
                            (jadd (jsub (Num 1) (py p)) ly)
                in Some \<lparr>px = jneg (denormalise (px res) (uMin e) (uMax e)),
                         py = denormalise (py res) (vMin e) (vMax e)\<rparr>)
           | _ \<Rightarrow> None))"

text \<open>
  What the sampler is expected to return at the grid vertex \<open>(i, j)\<close>: the two numbers
  stored for the vertex, each brought back to its range, the first one negated.
\<close>

definition vertex_value :: "env \<Rightarrow> int \<Rightarrow> int \<Rightarrow> point option" where
  "vertex_value e i j =
     (case getXY e (of_count i) (of_count j) of
        None \<Rightarrow> None
      | Some g \<Rightarrow> Some \<lparr>px = jneg (denormalise (px g) (uMin e) (uMax e)),
                         py = denormalise (py g) (vMin e) (vMax e)\<rparr>)"

section \<open>The gradient\<close>

text \<open>
  \<^verbatim>\<open>makeGradient\<close> (lines 204 to 237) and the call that builds the gradient of the
  program (lines 22 to 26).
  A stop is \<^verbatim>\<open>{stop, r, g, b}\<close>, a colour the fields \<^verbatim>\<open>r, g, b\<close> of it (\<open>cr\<close>,
  \<open>cg\<close>, \<open>cb\<close> here). \<^verbatim>\<open>makeGradient(stops)\<close> returns its inner function
  \<^verbatim>\<open>getColor\<close>; the model of that function is \<open>makeGradient stops\<close>. It returns a
  stop itself at both ends and a mixed colour in between; its callers read the three
  colour fields only, which is what the model returns. Reading \<^verbatim>\<open>stops[0]\<close> of an
  empty array gives \<^verbatim>\<open>undefined\<close> (\<open>None\<close>); the \<^verbatim>\<open>throw\<close> is the error.
\<close>

record rgb =
  cr :: jsnum
  cg :: jsnum
  cb :: jsnum

record gstop = rgb +
  stop :: jsnum

datatype error = Error string | TypeError

definition gradient_mix :: "gstop \<Rightarrow> gstop \<Rightarrow> jsnum \<Rightarrow> rgb" where
  "gradient_mix a b t =
     \<lparr>cr = jround (jadd (jmul (cr a) t) (jmul (jsub (Num 1) t) (cr b))),
      cg = jround (jadd (jmul (cg a) t) (jmul (jsub (Num 1) t) (cg b))),
      cb = jround (jadd (jmul (cb a) t) (jmul (jsub (Num 1) t) (cb b)))\<rparr>"

text \<open>The loop over the stops after the first, \<open>from\<close> being the stop before \<open>to\<close>.\<close>

fun scan :: "gstop \<Rightarrow> gstop list \<Rightarrow> jsnum \<Rightarrow> error + rgb option" where
  "scan from [] t = Inl (Error ''This should not be possible!'')"
| "scan from (to # rest) t =
     (if jle (stop from) t \<and> jlt t (stop to)
      then Inr (Some (gradient_mix to from
                        (jdiv (jsub t (stop from)) (jsub (stop to) (stop from)))))
      else scan to rest t)"

definition makeGradient :: "gstop list \<Rightarrow> jsnum \<Rightarrow> error + rgb option" where
  "makeGradient stops t =
     (if jle t (Num 0) then Inr (case stops of [] \<Rightarrow> None | s # _ \<Rightarrow> Some (rgb.truncate s))
      else if jge t (Num 1)
      then Inr (if stops = [] then None else Some (rgb.truncate (last stops)))
      else (case stops of
              [] \<Rightarrow> Inl (Error ''This should not be possible!'')
            | s # rest \<Rightarrow> scan s rest t))"

text \<open>The stops of the program's one gradient (\<^verbatim>\<open>0x28\<close> is 40, and so on).\<close>

definition gradient_stops :: "gstop list" where
  "gradient_stops =
     [\<lparr>cr = Num 40, cg = Num 40, cb = Num 40, stop = Num 0\<rparr>,
      \<lparr>cr = Num 106, cg = Num 168, cb = Num 198, stop = Num (1 / 2)\<rparr>,
      \<lparr>cr = Num 226, cg = Num 229, cb = Num 170, stop = Num 1\<rparr>]"

definition gradient :: "jsnum \<Rightarrow> error + rgb option" where
  "gradient = makeGradient gradient_stops"

text \<open>
  A well-formed list of stops, in the words of the specification: the positions are
  numbers that do not decrease, the first one is 0 and the last one is 1.
\<close>

definition well_formed :: "gstop list \<Rightarrow> bool" where
  "well_formed stops \<longleftrightarrow>
     stops \<noteq> [] \<and> list_all (\<lambda>s. is_finite (stop s)) stops \<and>
     sorted_wrt (\<lambda>a b. jle (stop a) (stop b)) stops \<and>
     stop (hd stops) = Num 0 \<and> stop (last stops) = Num 1"

section \<open>The rasteriser\<close>

text \<open>
  \<^verbatim>\<open>transform\<close> (lines 170 to 178), \<^verbatim>\<open>getColor\<close> (lines 180 to 188),
  \<^verbatim>\<open>drawSegment\<close> (lines 157 to 167) and \<^verbatim>\<open>onStreamlineAdded\<close> (lines 151 to
  155), all nested in \<^verbatim>\<open>processItem\<close>.
  \<^verbatim>\<open>transform\<close> reads the bounding box of the job; the model takes the box as an
  argument, and the job calls it with \<open>boundingBox e\<close>.
\<close>

definition transform :: "box \<Rightarrow> point \<Rightarrow> point" where
  "transform bb pt =
     (let tx = jdiv (jsub (px pt) (box_left bb)) (box_width bb);
          ty = jdiv (jsub (py pt) (box_top bb)) (box_height bb)
      in \<lparr>px = jround (jmul tx canvasWidth), py = jround (jmul ty canvasHeight)\<rparr>)"

text \<open>
  A stroke style is a string \<^verbatim>\<open>rgba(r, g, b, a)\<close>; the model keeps the four numbers
  written in it. The string of a sample that is not defined is the literal
  \<^verbatim>\<open>"rgba(0, 0, 0, 1.)"\<close>, whose fourth number is \<^verbatim>\<open>1.\<close>, that is 1.
\<close>

datatype style = Rgba jsnum jsnum jsnum jsnum

fun alpha :: "style \<Rightarrow> jsnum" where
  "alpha (Rgba _ _ _ a) = a"

definition getColor :: "env \<Rightarrow> jsnum \<Rightarrow> jsnum \<Rightarrow> error + style" where
  "getColor e col row =
     (case vectorField e \<lparr>px = col, py = row\<rparr> of
        None \<Rightarrow> Inr (Rgba (Num 0) (Num 0) (Num 0) (Num 1))
      | Some p \<Rightarrow>
          (let gray = jdiv (jsqrt (jadd (jmul (px p) (px p)) (jmul (py p) (py p))))
                        (maxVelocity e)
           in case gradient gray of
                Inl err \<Rightarrow> Inl err
              | Inr None \<Rightarrow> Inl TypeError
              | Inr (Some c) \<Rightarrow>
                  Inr (Rgba (cr c) (cg c) (cb c)
                         (jadd (Num (1 / 10)) (jmul gray (Num (9 / 10)))))))"

text \<open>The drawing context is the list of the calls made on it, the latest last.\<close>

datatype cmd =
  BeginPath | StrokeStyle style | MoveTo jsnum jsnum | LineTo jsnum jsnum | Stroke | ClosePath

definition drawSegment :: "env \<Rightarrow> cmd list \<Rightarrow> point \<Rightarrow> point \<Rightarrow> error + cmd list" where
  "drawSegment e ctx a b =
     (case getColor e (jmul (jadd (px a) (px b)) (Num (1 / 2)))
                      (jmul (jadd (py a) (py b)) (Num (1 / 2))) of
        Inl err \<Rightarrow> Inl err
      | Inr s \<Rightarrow>
          (let a' = transform (boundingBox e) a;
               b' = transform (boundingBox e) b
           in Inr (ctx @ [BeginPath, StrokeStyle s, MoveTo (px a') (py a'),
                          LineTo (px b') (py b'), Stroke, ClosePath])))"

fun onStreamlineAdded :: "env \<Rightarrow> cmd list \<Rightarrow> point list \<Rightarrow> error + cmd list" where
  "onStreamlineAdded e ctx (a # b # rest) =
     (case drawSegment e ctx a b of
        Inl err \<Rightarrow> Inl err
      | Inr ctx' \<Rightarrow> onStreamlineAdded e ctx' (b # rest))"
| "onStreamlineAdded e ctx _ = Inr ctx"

section \<open>An invariant of the loaded grid\<close>

text \<open>
  The numbers of one component sit at the even places of the grid (the first
  component) or at the odd ones (the second). \<open>parity_nonfinite b a\<close> says that no
  number at an even place (\<open>b\<close> true) or at an odd place (\<open>b\<close> false) of \<open>a\<close> is finite.
\<close>

definition parity_nonfinite :: "bool \<Rightarrow> jsnum list \<Rightarrow> bool" where
  "parity_nonfinite b a \<longleftrightarrow> (\<forall>k < length a. even k = b \<longrightarrow> \<not> is_finite (a ! k))"

section \<open>Example data\<close>

text \<open>A grid of 4 by 4 whose two normalised components are 0.5 everywhere, with the
  range 0 to 10 for both.\<close>

definition uniform_field :: env where
  "uniform_field =
     \<lparr>width = 4, height = 4, vfData = replicate 32 (Num (1 / 2)),
      uMax = Num 10, uMin = Num 0, vMax = Num 10, vMin = Num 0\<rparr>"

text \<open>
  A dataset of 4 by 4 values per component, of which the program loads the first three
  rows (\<open>height = Nj - 1\<close>). Every quotient by the range 16 is a binary fraction.
\<close>

definition sample_dataset :: dataset where
  "sample_dataset =
     \<lparr>data_u = \<lparr>vals = map Num [0, 1, 2, 3, 4, 5, 6, 7, 8, 9, 10, 11, 12, 13, 14, 16],
                Ni = 4, Nj = 4, minimum = Num 0, maximum = Num 16\<rparr>,
      data_v = \<lparr>vals = map Num [16, 14, 13, 12, 11, 10, 9, 8, 7, 6, 5, 4, 3, 2, 1, 0],
                Ni = 4, Nj = 4, minimum = Num 0, maximum = Num 16\<rparr>\<rparr>"

text \<open>The same values for \<open>u\<close>, and a component \<open>v\<close> that is 3 everywhere, so that its
  maximum is its minimum.\<close>

definition flat_dataset :: dataset where
  "flat_dataset =
     \<lparr>data_u = \<lparr>vals = map Num [0, 1, 2, 3, 4, 5, 6, 7, 8, 9, 10, 11, 12, 13, 14, 16],
                Ni = 4, Nj = 4, minimum = Num 0, maximum = Num 16\<rparr>,
      data_v = \<lparr>vals = map Num [3, 3, 3, 3, 3, 3, 3, 3, 3, 3, 3, 3, 3, 3, 3, 3],
                Ni = 4, Nj = 4, minimum = Num 3, maximum = Num 3\<rparr>\<rparr>"

text \<open>
  Two datasets of the ranges \<open>-12\<close> to 3 for \<open>u\<close> and \<open>-5\<close> to 4 for \<open>v\<close>. In the first
  one the three rows that are loaded hold the minima (a strong wind against both axes),
  in the second one the maxima.
\<close>

definition gale_dataset :: dataset where
  "gale_dataset =
     \<lparr>data_u = \<lparr>vals = map Num [- 12, - 12, - 12, - 12, - 12, - 12, - 12, - 12,
                               - 12, - 12, - 12, - 12, 3, - 12, - 12, - 12],
                Ni = 4, Nj = 4, minimum = Num (- 12), maximum = Num 3\<rparr>,
      data_v = \<lparr>vals = map Num [- 5, - 5, - 5, - 5, - 5, - 5, - 5, - 5,
                               - 5, - 5, - 5, - 5, 4, - 5, - 5, - 5],
                Ni = 4, Nj = 4, minimum = Num (- 5), maximum = Num 4\<rparr>\<rparr>"

definition steady_dataset :: dataset where
  "steady_dataset =
     \<lparr>data_u = \<lparr>vals = map Num [3, 3, 3, 3, 3, 3, 3, 3, 3, 3, 3, 3, - 12, 3, 3, 3],
                Ni = 4, Nj = 4, minimum = Num (- 12), maximum = Num 3\<rparr>,
      data_v = \<lparr>vals = map Num [4, 4, 4, 4, 4, 4, 4, 4, 4, 4, 4, 4, - 5, 4, 4, 4],
                Ni = 4, Nj = 4, minimum = Num (- 5), maximum = Num 4\<rparr>\<rparr>"

section \<open>Arithmetic of JavaScript numbers\<close>

lemma jmul_one [simp]: "jmul (Num 1) w = w" "jmul w (Num 1) = w"
  by (cases w; simp add: signed_def)+

lemma jadd_zero [simp]: "jadd (Num 0) w = w" "jadd w (Num 0) = w"
  by (cases w; simp)+

lemma trunc_simps: "trunc (1 / 2) = 0" "trunc (3 / 4) = 0" "trunc 1 = 1" "trunc (5 / 4) = 1"
  by (simp_all add: trunc_def)

lemma ranges: "[0 ..< 3] = [0, 1, 2::nat]" "[0 ..< 4] = [0, 1, 2, 3::nat]"
  by code_simp+

lemma replicate_24: "replicate 24 c = (let r = [c, c, c, c, c, c] in r @ r @ r @ r)"
  by (simp add: numeral_eq_Suc)

lemma sqrt_25: "sqrt 25 = 5"
  using real_sqrt_unique [of 5 25] by simp

lemma sqrt_169: "sqrt 169 = 13"
  using real_sqrt_unique [of 13 169] by simp

text \<open>The definitions that evaluate the loading of a dataset, and a sample.\<close>

lemmas load_defs = processItem_env_def fill_grid_def fill_row_def fill_cell_def Let_def
  js_store_def normalise_def jsub_def of_count_def trunc_simps ranges

lemmas sampler_defs = vectorField_def indices_def outside_def getXY_def mix_def Let_def
  jge_def jgt_def jsub_def denormalise_def of_count_def

section \<open>Properties of the field sampler\<close>

lemma getXY_None_iff: "getXY e c r = None \<longleftrightarrow> outside e c r"
  by (simp add: getXY_def Let_def)

lemma vectorField_None_corner:
  assumes "indices e p = (lx, ly, ux, uy)"
    and "outside e lx ly \<or> outside e (jadd lx (Num 1)) ly \<or>
         outside e lx (jadd ly (Num 1)) \<or> outside e (jadd lx (Num 1)) (jadd ly (Num 1))"
  shows "vectorField e p = None"
  using assms
  by (auto simp: vectorField_def getXY_def Let_def split: option.splits)

lemma floor_succ_ge: "of_int w - 1 \<le> (a::real) \<Longrightarrow> of_int w \<le> (of_int \<lfloor>a\<rfloor> :: real) + 1"
proof -
  assume "of_int w - 1 \<le> a"
  then have "w - 1 \<le> \<lfloor>a\<rfloor>" by (simp add: le_floor_iff)
  then have "(of_int (w - 1) :: real) \<le> of_int \<lfloor>a\<rfloor>" by (simp only: of_int_le_iff)
  then show ?thesis by simp
qed

lemma ceiling_succ_ge: "of_int w - 1 \<le> (a::real) \<Longrightarrow> of_int w \<le> (of_int \<lceil>a\<rceil> :: real) + 1"
  by linarith

text \<open>On the last column or beyond, the column right of \<open>lx\<close> is off the grid, whichever
  substitution was made; and so for the last row.\<close>

lemma lower_index_x:
  assumes "jge (px p) (Num (of_int (width e) - 1))" and "indices e p = (lx, ly, ux, uy)"
  shows "jge (jadd lx (Num 1)) (of_count (width e))"
  using assms
  by (cases "px p")
    (auto simp: indices_def Let_def jge_def of_count_def floor_succ_ge ceiling_succ_ge
          split: if_splits)

lemma lower_index_y:
  assumes "jge (py p) (Num (of_int (height e) - 1))" and "indices e p = (lx, ly, ux, uy)"
  shows "jge (jadd ly (Num 1)) (of_count (height e))"
  using assms
  by (cases "py p")
    (auto simp: indices_def Let_def jge_def of_count_def floor_succ_ge ceiling_succ_ge
          split: if_splits)

text \<open>For finite indices, \<^verbatim>\<open>outside\<close> is the complement of
  \<open>[0, width) \<times> [0, height)\<close>.\<close>

lemma outside_finite:
  "outside e (Num a) (Num b) \<longleftrightarrow>
     \<not> (0 \<le> a \<and> a < of_int (width e) \<and> 0 \<le> b \<and> b < of_int (height e))"
  by (auto simp: outside_def jge_def of_count_def)

lemma upper_edges_None:
  assumes "jge (px p) (Num (of_int (width e) - 1)) \<or> jge (py p) (Num (of_int (height e) - 1))"
  shows "vectorField e p = None"
proof -
  obtain lx ly ux uy where i: "indices e p = (lx, ly, ux, uy)"
    by (cases "indices e p") auto
  from assms have "outside e (jadd lx (Num 1)) (jadd ly (Num 1))"
  proof
    assume "jge (px p) (Num (of_int (width e) - 1))"
    from lower_index_x [OF this i] show ?thesis by (simp add: outside_def)
  next
    assume "jge (py p) (Num (of_int (height e) - 1))"
    from lower_index_y [OF this i] show ?thesis by (simp add: outside_def)
  qed
  then show ?thesis using i vectorField_None_corner by blast
qed

text \<open>Where one of the two substitutions at the upper edges is made
  (\<open>ceil(p.x) \<ge> width\<close>, \<open>ceil(p.y) > height\<close>), the sampler returns no value.\<close>

lemma upper_substitution_None:
  assumes "jge (jceil (px p)) (of_count (width e)) \<or> jgt (jceil (py p)) (of_count (height e))"
  shows "vectorField e p = None"
proof (rule upper_edges_None)
  from assms show "jge (px p) (Num (of_int (width e) - 1)) \<or>
      jge (py p) (Num (of_int (height e) - 1))"
  proof
    assume "jge (jceil (px p)) (of_count (width e))"
    then have "jge (px p) (Num (of_int (width e) - 1))"
      by (cases "px p") (auto simp: jge_def of_count_def, linarith)
    then show ?thesis ..
  next
    assume "jgt (jceil (py p)) (of_count (height e))"
    then have "jge (py p) (Num (of_int (height e) - 1))"
      by (cases "py p") (auto simp: jge_def jgt_def of_count_def, linarith)
    then show ?thesis ..
  qed
qed



text \<open>
  Claim C10. For every query point with \<open>p.x \<ge> width - 1\<close> or \<open>p.y \<ge> height - 1\<close>,
  the points of the last grid row and column included, the sampler returns no value:
  the corners are read at \<open>lx + 1\<close> and \<open>ly + 1\<close> whatever the substitutions
  \<open>ux = lx\<close> and \<open>uy = ly\<close> did.
\<close>

theorem sample_undefined_on_upper_edges:
  assumes "jge (px p) (Num (of_int (width e) - 1)) \<or> jge (py p) (Num (of_int (height e) - 1))"
  shows "vectorField e p = None"
  using assms by (rule upper_edges_None)

theorem sample_undefined_on_upper_edges_witness:
  "jge (px \<lparr>px = Num 3, py = Num 1\<rparr>) (Num (of_int (width uniform_field) - 1))
   \<and> vectorField uniform_field \<lparr>px = Num 3, py = Num 1\<rparr> = None"
proof -
  have h: "jge (px \<lparr>px = Num 3, py = Num 1\<rparr>) (Num (of_int (width uniform_field) - 1))"
    by (simp add: jge_def uniform_field_def)
  from sample_undefined_on_upper_edges [of "\<lparr>px = Num 3, py = Num 1\<rparr>" uniform_field] h
  show ?thesis by blast
qed

subsection \<open>Samples at grid vertices\<close>

lemma getXY_int:
  "getXY e (Num (of_int i)) (Num (of_int j)) =
     (if outside e (Num (of_int i)) (Num (of_int j)) then None
      else Some \<lparr>px = js_index (vfData e) (Num (of_int ((i + j * width e) * 2))),
                  py = js_index (vfData e) (Num (of_int ((i + j * width e) * 2 + 1)))\<rparr>)"
  by (simp add: getXY_def of_count_def Let_def)

lemma outside_int:
  "outside e (Num (of_int i)) (Num (of_int j)) \<longleftrightarrow>
     i < 0 \<or> width e \<le> i \<or> j < 0 \<or> height e \<le> j"
  by (simp add: outside_def jge_def of_count_def)


lemma indices_vertex:
  assumes "0 \<le> i" "i < width e" "0 \<le> j" "j < height e"
  shows "indices e \<lparr>px = Num (of_int i), py = Num (of_int j)\<rparr>
       = (Num (of_int i), Num (of_int j), Num (of_int i), Num (of_int j))"
  using assms by (simp add: indices_def Let_def jge_def jgt_def of_count_def)

text \<open>\<^verbatim>\<open>mix(a, b, ratio)\<close> weighs \<open>a\<close> by the ratio: at the ratio 0 it is \<open>b\<close>, at 1 it
  is \<open>a\<close> (the other point being finite).\<close>

lemma mix_left_zero: "mix \<lparr>px = Num a, py = Num b\<rparr> q (Num 0) = q"
  by (simp add: mix_def jsub_def)

lemma mix_right_one: "mix q \<lparr>px = Num a, py = Num b\<rparr> (Num 1) = q"
  by (simp add: mix_def jsub_def)

text \<open>
  At a vertex \<open>(i, j)\<close> whose right and lower neighbours are on the grid,
  \<^verbatim>\<open>mix(tl, tr, p.x - lx)\<close> has the ratio 0 and is \<open>tr\<close>: the sampler returns the
  value of the vertex \<open>(i + 1, j)\<close>, not of \<open>(i, j)\<close>.
\<close>

lemma vertex_sample_right_neighbour:
  assumes b: "0 \<le> i" "i + 1 < width e" "0 \<le> j" "j + 1 < height e"
    and tl: "getXY e (of_count i) (of_count j) = Some \<lparr>px = Num a1, py = Num b1\<rparr>"
    and bl: "getXY e (of_count i) (of_count (j + 1)) = Some \<lparr>px = Num a2, py = Num b2\<rparr>"
    and br: "getXY e (of_count (i + 1)) (of_count (j + 1)) = Some \<lparr>px = Num a3, py = Num b3\<rparr>"
  shows "vectorField e \<lparr>px = of_count i, py = of_count j\<rparr> = vertex_value e (i + 1) j"
proof -
  have i: "indices e \<lparr>px = Num (of_int i), py = Num (of_int j)\<rparr>
       = (Num (of_int i), Num (of_int j), Num (of_int i), Num (of_int j))"
    using b by (intro indices_vertex) auto
  have o: "\<not> outside e (Num (of_int i)) (Num (of_int j))"
     "\<not> outside e (Num (of_int (i + 1))) (Num (of_int j))"
    using b by (auto simp only: outside_int)
  then obtain q where tr: "getXY e (Num (of_int (i + 1))) (Num (of_int j)) = Some q"
    by (simp only: getXY_int if_False)
  have s: "jadd (Num (of_int k)) (Num 1) = Num (of_int (k + 1))" for k by simp
  have r: "jsub (Num (of_int k)) (Num (of_int k)) = Num 0"
     "jadd (jsub (Num 1) (Num (of_int k))) (Num (of_int k)) = Num 1" for k
    by (simp_all add: jsub_def)
  show ?thesis
    unfolding vectorField_def vertex_value_def of_count_def i prod.case point.simps s r
    using o tl bl br tr
    unfolding of_count_def
    by (simp add: mix_left_zero mix_right_one del: of_int_add)
qed

lemma sample_dataset_env:
  "processItem_env sample_dataset =
     \<lparr>width = 4, height = 3,
      vfData = map Num [1 / 8, 13 / 16, 3 / 16, 3 / 4, 0, 1, 1 / 16, 7 / 8,
                        3 / 8, 9 / 16, 7 / 16, 1 / 2, 1 / 4, 11 / 16, 5 / 16, 5 / 8,
                        5 / 8, 5 / 16, 11 / 16, 1 / 4, 1 / 2, 7 / 16, 9 / 16, 3 / 8],
      uMax = Num 16, uMin = Num 0, vMax = Num 16, vMin = Num 0\<rparr>"
  by (simp add: processItem_env_def sample_dataset_def fill_grid_def fill_row_def
      fill_cell_def Let_def js_store_def normalise_def jsub_def of_count_def trunc_simps ranges)

text \<open>
  Claim C1 says that the sampler, at a grid vertex \<open>(x0, y0)\<close> strictly inside of the
  grid, returns the value of that vertex: the stored pair brought back to its range,
  the first number negated. On \<open>sample_dataset\<close> at the vertex \<open>(1, 1)\<close> that value is
  \<open>(-7, 8)\<close>; the sampler returns \<open>(-4, 11)\<close>, the value of the vertex \<open>(2, 1)\<close>.
\<close>

theorem vertex_sample_example:
  "vectorField (processItem_env sample_dataset) \<lparr>px = Num 1, py = Num 1\<rparr>
     = Some \<lparr>px = Num (- 4), py = Num 11\<rparr>
   \<and> vertex_value (processItem_env sample_dataset) 1 1 = Some \<lparr>px = Num (- 7), py = Num 8\<rparr>
   \<and> vertex_value (processItem_env sample_dataset) 2 1 = Some \<lparr>px = Num (- 4), py = Num 11\<rparr>"
  unfolding sample_dataset_env
  by (simp add: vectorField_def vertex_value_def indices_def outside_def getXY_def mix_def
      Let_def jge_def jgt_def jsub_def denormalise_def of_count_def)

subsection \<open>The uniform field\<close>






text \<open>The grid of \<open>flat_dataset\<close>: every number of the second component is \<open>0 / 0\<close>.\<close>

lemma flat_env:
  "processItem_env flat_dataset =
     \<lparr>width = 4, height = 3,
      vfData = [Num (1 / 8), NaN, Num (3 / 16), NaN, Num 0, NaN, Num (1 / 16), NaN,
                Num (3 / 8), NaN, Num (7 / 16), NaN, Num (1 / 4), NaN, Num (5 / 16), NaN,
                Num (5 / 8), NaN, Num (11 / 16), NaN, Num (1 / 2), NaN, Num (9 / 16), NaN],
      uMax = Num 16, uMin = Num 0, vMax = Num 3, vMin = Num 3\<rparr>"
  by (simp add: flat_dataset_def load_defs signed_def)

section \<open>Properties of the gradient\<close>

text \<open>
  Claim C6. For every gradient with at least one stop (so for every list of stops that
  covers 0 and 1): for all \<open>t \<le> 0\<close> the colour returned is the colour of the first stop,
  and for all \<open>t \<ge> 1\<close> it is the colour of the last stop.
\<close>

theorem gradient_clamps:
  assumes "stops \<noteq> []"
  shows "(jle t (Num 0) \<longrightarrow> makeGradient stops t = Inr (Some (rgb.truncate (hd stops)))) \<and>
         (jge t (Num 1) \<longrightarrow> makeGradient stops t = Inr (Some (rgb.truncate (last stops))))"
proof -
  have x: "\<not> (jle t (Num 0) \<and> jge t (Num 1))"
    by (cases t) (simp_all add: jge_def)
  with assms show ?thesis
    by (cases stops) (auto simp: makeGradient_def)
qed

theorem gradient_clamps_witness:
  "gradient_stops \<noteq> [] \<and> jle (Num (- 1)) (Num 0) \<and>
   makeGradient gradient_stops (Num (- 1)) = Inr (Some \<lparr>cr = Num 40, cg = Num 40, cb = Num 40\<rparr>) \<and>
   jge PosInf (Num 1) \<and>
   makeGradient gradient_stops PosInf = Inr (Some \<lparr>cr = Num 226, cg = Num 229, cb = Num 170\<rparr>)"
proof -
  have n: "gradient_stops \<noteq> []" by (simp add: gradient_stops_def)
  have a: "jle (Num (- 1)) (Num 0)" and b: "jge PosInf (Num 1)" by (simp_all add: jge_def)
  have h: "rgb.truncate (hd gradient_stops) = \<lparr>cr = Num 40, cg = Num 40, cb = Num 40\<rparr>"
    and l: "rgb.truncate (last gradient_stops) = \<lparr>cr = Num 226, cg = Num 229, cb = Num 170\<rparr>"
    by (simp_all add: gradient_stops_def rgb.truncate_def)
  from gradient_clamps [OF n, of "Num (- 1)"] gradient_clamps [OF n, of PosInf] a b n
  show ?thesis by (simp only: h l simp_thms)
qed

text \<open>The scan finds a pair of stops around every number strictly between the first
  and the last position: the stop before is never above \<open>t\<close>.\<close>

lemma scan_finds_pair:
  assumes "list_all (\<lambda>s. is_finite (stop s)) rest" "rest \<noteq> []"
    and "jle (stop prev) (Num x)" "jlt (Num x) (stop (last rest))"
  shows "\<exists>c. scan prev rest (Num x) = Inr (Some c)"
  using assms
proof (induction rest arbitrary: prev)
  case Nil
  then show ?case by simp
next
  case (Cons to rest)
  show ?case
  proof (cases "jlt (Num x) (stop to)")
    case True
    with Cons.prems show ?thesis by simp
  next
    case False
    from Cons.prems(1) obtain a where a: "stop to = Num a" by (cases "stop to") auto
    with False have le: "jle (stop to) (Num x)" by simp
    from False Cons.prems(4) have ne: "rest \<noteq> []" by auto
    with Cons.prems have "\<exists>c. scan to rest (Num x) = Inr (Some c)"
      by (intro Cons.IH le) auto
    with False show ?thesis by simp
  qed
qed

text \<open>For a well-formed list of stops and every \<open>t\<close> other than \<open>NaN\<close>, the gradient
  returns a colour.\<close>

lemma makeGradient_finds_colour:
  assumes "well_formed stops" "t \<noteq> NaN"
  shows "\<exists>c. makeGradient stops t = Inr (Some c)"
proof -
  from assms(1) obtain s rest where s: "stops = s # rest"
    by (cases stops) (auto simp: well_formed_def)
  show ?thesis
  proof (cases "jle t (Num 0) \<or> jge t (Num 1)")
    case True
    then show ?thesis by (auto simp: makeGradient_def s)
  next
    case False
    with assms(2) obtain x where x: "t = Num x" "0 < x" "x < 1"
      by (cases t) (auto simp: jge_def)
    from assms(1) s x have ne: "rest \<noteq> []"
      by (auto simp: well_formed_def)
    from assms(1) s x ne have "\<exists>c. scan s rest (Num x) = Inr (Some c)"
      by (intro scan_finds_pair) (auto simp: well_formed_def)
    with False x s show ?thesis by (simp add: makeGradient_def)
  qed
qed

text \<open>
  Claim C7 says that, for a well-formed list of stops and every input \<open>t\<close>, the
  \<^verbatim>\<open>throw\<close> after the scan is never reached. The stops of the program are well formed,
  and at \<open>t = NaN\<close> both clamping tests and every test of the scan are false: the
  gradient throws. The rasteriser passes \<open>NaN\<close> on \<open>flat_dataset\<close>, whose samples have
  a second component \<open>NaN\<close>: drawing the segment from \<open>(1, 1)\<close> to \<open>(2, 1)\<close> throws.
\<close>

theorem gradient_throws_on_NaN:
  "well_formed gradient_stops \<and>
   gradient NaN = Inl (Error ''This should not be possible!'') \<and>
   onStreamlineAdded (processItem_env flat_dataset) []
       [\<lparr>px = Num 1, py = Num 1\<rparr>, \<lparr>px = Num 2, py = Num 1\<rparr>]
     = Inl (Error ''This should not be possible!'')"
proof -
  have w: "well_formed gradient_stops"
    by (simp add: well_formed_def gradient_stops_def)
  have g: "gradient NaN = Inl (Error ''This should not be possible!'')"
    by (simp add: gradient_def gradient_stops_def makeGradient_def jge_def)
  have s: "vectorField (processItem_env flat_dataset) \<lparr>px = Num (3 / 2), py = Num 1\<rparr>
      = Some \<lparr>px = Num (- 11 / 2), py = NaN\<rparr>"
    unfolding flat_env by (simp add: sampler_defs)
  have "getColor (processItem_env flat_dataset) (Num (3 / 2)) (Num 1)
      = Inl (Error ''This should not be possible!'')"
    by (simp add: getColor_def s g)
  then have "onStreamlineAdded (processItem_env flat_dataset) []
       [\<lparr>px = Num 1, py = Num 1\<rparr>, \<lparr>px = Num 2, py = Num 1\<rparr>]
     = Inl (Error ''This should not be possible!'')"
    by (simp add: drawSegment_def)
  with w g show ?thesis by simp
qed

section \<open>Properties of the coordinate transform\<close>

text \<open>
  Claim C8. For every bounding box of positive width and height, the transform maps
  the top left corner \<open>(left, top)\<close> of the box to the pixel \<open>(0, 0)\<close> and the bottom right
  corner \<open>(left + width, top + height)\<close> to the pixel \<open>(canvasWidth, canvasHeight)\<close>.
\<close>

theorem transform_corners:
  assumes "0 < w" "0 < h"
  shows "transform \<lparr>box_left = Num l, box_top = Num t, box_width = Num w, box_height = Num h\<rparr>
           \<lparr>px = Num l, py = Num t\<rparr> = \<lparr>px = Num 0, py = Num 0\<rparr> \<and>
         transform \<lparr>box_left = Num l, box_top = Num t, box_width = Num w, box_height = Num h\<rparr>
           \<lparr>px = Num (l + w), py = Num (t + h)\<rparr> = \<lparr>px = canvasWidth, py = canvasHeight\<rparr>"
  using assms by (simp add: transform_def jsub_def canvasWidth_def canvasHeight_def Let_def)

theorem transform_corners_witness:
  "transform (boundingBox uniform_field) \<lparr>px = Num 0, py = Num 0\<rparr> = \<lparr>px = Num 0, py = Num 0\<rparr> \<and>
   transform (boundingBox uniform_field) \<lparr>px = Num 4, py = Num 4\<rparr> = \<lparr>px = Num 1280, py = Num 720\<rparr>"
proof -
  have b: "boundingBox uniform_field =
      \<lparr>box_left = Num 0, box_top = Num 0, box_width = Num 4, box_height = Num 4\<rparr>"
    by (simp add: boundingBox_def uniform_field_def of_count_def)
  have "(0::real) < 4" by simp
  from transform_corners [OF this this, of 0 0] show ?thesis
    by (simp add: b canvasWidth_def canvasHeight_def)
qed

section \<open>Properties of the rasteriser\<close>

lemma uniform_edge_sample:
  "vectorField uniform_field \<lparr>px = Num (7 / 2), py = Num 1\<rparr> = None"
  by (simp add: sampler_defs uniform_field_def)

lemma uniform_box:
  "boundingBox uniform_field =
     \<lparr>box_left = Num 0, box_top = Num 0, box_width = Num 4, box_height = Num 4\<rparr>"
  by (simp add: boundingBox_def uniform_field_def of_count_def)

lemmas transform_defs = transform_def canvasWidth_def canvasHeight_def jsub_def Let_def

text \<open>
  Claim C2, as amended. When the sampler returns no value at the midpoint of a segment,
  the segment is drawn all the same (the six calls on the context are made), and its
  stroke style is the literal \<^verbatim>\<open>rgba(0, 0, 0, 1.)\<close>: black of alpha 1, not of
  alpha 0.
\<close>

theorem undefined_midpoint_segment:
  assumes "vectorField e \<lparr>px = jmul (jadd (px a) (px b)) (Num (1 / 2)),
                          py = jmul (jadd (py a) (py b)) (Num (1 / 2))\<rparr> = None"
  shows "drawSegment e ctx a b =
     Inr (ctx @ [BeginPath, StrokeStyle (Rgba (Num 0) (Num 0) (Num 0) (Num 1)),
                 MoveTo (px (transform (boundingBox e) a)) (py (transform (boundingBox e) a)),
                 LineTo (px (transform (boundingBox e) b)) (py (transform (boundingBox e) b)),
                 Stroke, ClosePath])"
  using assms by (simp add: drawSegment_def getColor_def Let_def)

theorem undefined_midpoint_segment_witness:
  "drawSegment uniform_field [] \<lparr>px = Num 3, py = Num 1\<rparr> \<lparr>px = Num 4, py = Num 1\<rparr> =
     Inr [BeginPath, StrokeStyle (Rgba (Num 0) (Num 0) (Num 0) (Num 1)),
          MoveTo (Num 960) (Num 180), LineTo (Num 1280) (Num 180), Stroke, ClosePath]"
proof -
  have "vectorField uniform_field
          \<lparr>px = jmul (jadd (px \<lparr>px = Num 3, py = Num 1\<rparr>) (px \<lparr>px = Num 4, py = Num 1\<rparr>))
                  (Num (1 / 2)),
           py = jmul (jadd (py \<lparr>px = Num 3, py = Num 1\<rparr>) (py \<lparr>px = Num 4, py = Num 1\<rparr>))
                  (Num (1 / 2))\<rparr> = None"
    using uniform_edge_sample by simp
  from undefined_midpoint_segment [OF this, of "[]"] show ?thesis
    by (simp add: uniform_box transform_defs)
qed

text \<open>Claim C2 as it is written fails on the uniform field at the midpoint \<open>(3.5, 1)\<close>,
  where the sample is not defined: the alpha of the stroke style is 1.\<close>

theorem undefined_midpoint_alpha_counterexample:
  "vectorField uniform_field \<lparr>px = Num (7 / 2), py = Num 1\<rparr> = None \<and>
   getColor uniform_field (Num (7 / 2)) (Num 1) = Inr (Rgba (Num 0) (Num 0) (Num 0) (Num 1)) \<and>
   alpha (Rgba (Num 0) (Num 0) (Num 0) (Num 1)) \<noteq> Num 0"
  by (simp add: getColor_def uniform_edge_sample)

subsection \<open>The alpha of a segment\<close>

lemma gradient_NaN: "gradient NaN = Inl (Error ''This should not be possible!'')"
  by (simp add: gradient_def gradient_stops_def makeGradient_def jge_def)

lemma jsqrt_cases: "jsqrt w = NaN \<or> jsqrt w = PosInf \<or> (\<exists>r\<ge>0. jsqrt w = Num r)"
  by (cases w) auto

lemma ratio_of_roots:
  assumes "jdiv (jsqrt s) (jsqrt m) \<noteq> NaN"
  shows "jdiv (jsqrt s) (jsqrt m) = PosInf \<or> (\<exists>g\<ge>0. jdiv (jsqrt s) (jsqrt m) = Num g)"
proof -
  consider "jsqrt s = NaN \<or> jsqrt m = NaN"
    | "jsqrt s = PosInf" "jsqrt m = PosInf"
    | r where "jsqrt s = PosInf" "0 \<le> r" "jsqrt m = Num r"
    | r where "0 \<le> r" "jsqrt s = Num r" "jsqrt m = PosInf"
    | r r' where "0 \<le> r" "jsqrt s = Num r" "0 \<le> r'" "jsqrt m = Num r'"
    using jsqrt_cases [of s] jsqrt_cases [of m] by blast
  then show ?thesis
  proof cases
    case 1
    with assms show ?thesis by (cases "jsqrt s") auto
  next
    case 2
    with assms show ?thesis by simp
  next
    case 3
    then show ?thesis by simp
  next
    case 4
    then show ?thesis by simp
  next
    case 5
    show ?thesis
    proof (cases "r' = 0")
      case True
      with 5 assms show ?thesis by (auto simp: signed_def split: if_splits)
    next
      case False
      with 5 have "jdiv (jsqrt s) (jsqrt m) = Num (r / r')" "0 \<le> r / r'" by simp_all
      then show ?thesis by blast
    qed
  qed
qed

lemma alpha_bounds:
  assumes "gray = PosInf \<or> (\<exists>g\<ge>0. gray = Num g)"
  shows "jle (Num (1 / 10)) (jadd (Num (1 / 10)) (jmul gray (Num (9 / 10))))"
    and "jle (jadd (Num (1 / 10)) (jmul gray (Num (9 / 10)))) (Num 1) \<longleftrightarrow> jle gray (Num 1)"
  using assms by (auto simp: signed_def)

text \<open>
  Claim C9, as amended. For every two-point path whose midpoint sample \<open>w\<close> is defined
  and whose drawing returns (the gradient does not throw): one segment is drawn, its
  alpha is \<open>0.1 + 0.9 * gray\<close> with \<open>gray = |w| / maxVelocity\<close> and
  \<open>maxVelocity = sqrt(uMax\<^sup>2 + vMax\<^sup>2)\<close>; the alpha is at least 0.1, and it is at
  most 1 exactly when \<open>gray \<le> 1\<close>, which the program does not ensure.
\<close>

theorem segment_alpha:
  assumes s: "vectorField e \<lparr>px = jmul (jadd (px a) (px b)) (Num (1 / 2)),
                              py = jmul (jadd (py a) (py b)) (Num (1 / 2))\<rparr> = Some w"
    and d: "onStreamlineAdded e ctx [a, b] = Inr ctx'"
  shows "\<exists>c::rgb. let gray = jdiv (jsqrt (jadd (jmul (px w) (px w)) (jmul (py w) (py w))))
                         (jsqrt (jadd (jmul (uMax e) (uMax e)) (jmul (vMax e) (vMax e))));
                  al = jadd (Num (1 / 10)) (jmul gray (Num (9 / 10)))
              in ctx' = ctx @ [BeginPath, StrokeStyle (Rgba (cr c) (cg c) (cb c) al),
                   MoveTo (px (transform (boundingBox e) a)) (py (transform (boundingBox e) a)),
                   LineTo (px (transform (boundingBox e) b)) (py (transform (boundingBox e) b)),
                   Stroke, ClosePath]
                 \<and> jle (Num (1 / 10)) al
                 \<and> (jle al (Num 1) \<longleftrightarrow> jle gray (Num 1))"
proof -
  let ?gray = "jdiv (jsqrt (jadd (jmul (px w) (px w)) (jmul (py w) (py w))))
                 (jsqrt (jadd (jmul (uMax e) (uMax e)) (jmul (vMax e) (vMax e))))"
  from d obtain st where
    st: "getColor e (jmul (jadd (px a) (px b)) (Num (1 / 2))) (jmul (jadd (py a) (py b)) (Num (1 / 2))) = Inr st"
    and c': "ctx' = ctx @ [BeginPath, StrokeStyle st,
                   MoveTo (px (transform (boundingBox e) a)) (py (transform (boundingBox e) a)),
                   LineTo (px (transform (boundingBox e) b)) (py (transform (boundingBox e) b)),
                   Stroke, ClosePath]"
    by (auto simp: drawSegment_def Let_def split: sum.splits)
  from st s obtain c where g: "gradient ?gray = Inr (Some c)"
    and st': "st = Rgba (cr c) (cg c) (cb c) (jadd (Num (1 / 10)) (jmul ?gray (Num (9 / 10))))"
    by (auto simp: getColor_def Let_def maxVelocity_def split: sum.splits option.splits)
  from g have "?gray \<noteq> NaN" using gradient_NaN by auto
  then have "?gray = PosInf \<or> (\<exists>g\<ge>0. ?gray = Num g)"
    by (rule ratio_of_roots)
  note b = alpha_bounds [OF this]
  show ?thesis
    unfolding Let_def
  proof (rule exI [of _ c], intro conjI)
    show "ctx' = ctx @ [BeginPath,
        StrokeStyle (Rgba (cr c) (cg c) (cb c) (jadd (Num (1 / 10)) (jmul ?gray (Num (9 / 10))))),
        MoveTo (px (transform (boundingBox e) a)) (py (transform (boundingBox e) a)),
        LineTo (px (transform (boundingBox e) b)) (py (transform (boundingBox e) b)),
        Stroke, ClosePath]"
      using c' st' by simp
    show "jle (Num (1 / 10)) (jadd (Num (1 / 10)) (jmul ?gray (Num (9 / 10))))"
      by (rule b(1))
    show "jle (jadd (Num (1 / 10)) (jmul ?gray (Num (9 / 10)))) (Num 1) = jle ?gray (Num 1)"
      by (rule b(2))
  qed
qed


lemma steady_env:
  "processItem_env steady_dataset =
     \<lparr>width = 4, height = 3,
      vfData = replicate 24 (Num 1),
      uMax = Num 3, uMin = Num (- 12), vMax = Num 4, vMin = Num (- 5)\<rparr>"
  by (simp add: steady_dataset_def load_defs replicate_24)

lemma gale_env:
  "processItem_env gale_dataset =
     \<lparr>width = 4, height = 3,
      vfData = replicate 24 (Num 0),
      uMax = Num 3, uMin = Num (- 12), vMax = Num 4, vMin = Num (- 5)\<rparr>"
  by (simp add: gale_dataset_def load_defs replicate_24)

lemma steady_sample:
  "vectorField (processItem_env steady_dataset) \<lparr>px = Num (3 / 2), py = Num 1\<rparr>
     = Some \<lparr>px = Num (- 3), py = Num 4\<rparr>"
  unfolding steady_env by (simp add: sampler_defs)

lemma gale_sample:
  "vectorField (processItem_env gale_dataset) \<lparr>px = Num (3 / 2), py = Num 1\<rparr>
     = Some \<lparr>px = Num 12, py = Num (- 5)\<rparr>"
  unfolding gale_env by (simp add: sampler_defs)

lemma last_stop: "1 \<le> g \<Longrightarrow>
    gradient (Num g) = Inr (Some \<lparr>cr = Num 226, cg = Num 229, cb = Num 170\<rparr>)"
  by (simp add: gradient_def gradient_stops_def makeGradient_def jge_def rgb.truncate_def)

lemma steady_draw:
  "onStreamlineAdded (processItem_env steady_dataset) []
      [\<lparr>px = Num 1, py = Num 1\<rparr>, \<lparr>px = Num 2, py = Num 1\<rparr>]
    = Inr [BeginPath, StrokeStyle (Rgba (Num 226) (Num 229) (Num 170) (Num 1)),
           MoveTo (Num 320) (Num 240), LineTo (Num 640) (Num 240), Stroke, ClosePath]"
proof -
  have m: "maxVelocity (processItem_env steady_dataset) = Num 5"
    by (simp add: steady_env maxVelocity_def sqrt_25)
  have b: "boundingBox (processItem_env steady_dataset) =
     \<lparr>box_left = Num 0, box_top = Num 0, box_width = Num 4, box_height = Num 3\<rparr>"
    by (simp add: steady_env boundingBox_def of_count_def)
  have c: "getColor (processItem_env steady_dataset) (Num (3 / 2)) (Num 1)
      = Inr (Rgba (Num 226) (Num 229) (Num 170) (Num 1))"
    by (simp add: getColor_def steady_sample m sqrt_25 last_stop)
  show ?thesis
    by (simp add: drawSegment_def c b transform_defs)
qed

theorem segment_alpha_witness:
  "vectorField (processItem_env steady_dataset) \<lparr>px = Num (3 / 2), py = Num 1\<rparr>
     = Some \<lparr>px = Num (- 3), py = Num 4\<rparr> \<and>
   onStreamlineAdded (processItem_env steady_dataset) []
      [\<lparr>px = Num 1, py = Num 1\<rparr>, \<lparr>px = Num 2, py = Num 1\<rparr>]
    = Inr [BeginPath, StrokeStyle (Rgba (Num 226) (Num 229) (Num 170) (Num 1)),
           MoveTo (Num 320) (Num 240), LineTo (Num 640) (Num 240), Stroke, ClosePath] \<and>
   jle (Num (1 / 10)) (Num 1) \<and> jle (Num 1) (Num 1)"
proof -
  have s: "vectorField (processItem_env steady_dataset)
      \<lparr>px = jmul (jadd (px \<lparr>px = Num 1, py = Num 1\<rparr>) (px \<lparr>px = Num 2, py = Num 1\<rparr>)) (Num (1 / 2)),
       py = jmul (jadd (py \<lparr>px = Num 1, py = Num 1\<rparr>) (py \<lparr>px = Num 2, py = Num 1\<rparr>)) (Num (1 / 2))\<rparr>
     = Some \<lparr>px = Num (- 3), py = Num 4\<rparr>"
    using steady_sample by simp
  have u: "uMax (processItem_env steady_dataset) = Num 3"
     "vMax (processItem_env steady_dataset) = Num 4"
    by (simp_all add: processItem_env_def steady_dataset_def)
  from segment_alpha [OF s steady_draw]
  have "jle (Num (1 / 10)) (Num 1) \<and> jle (Num 1) (Num 1)"
    by (simp add: u sqrt_25 Let_def)
  with steady_sample steady_draw show ?thesis by simp
qed

text \<open>
  Claim C9 as it is written fails on \<open>gale_dataset\<close>, for the path from \<open>(1, 1)\<close> to
  \<open>(2, 1)\<close>: the sample at the midpoint is \<open>(12, -5)\<close>, of magnitude 13, while
  \<open>maxVelocity = sqrt(3\<^sup>2 + 4\<^sup>2) = 5\<close>; the alpha is \<open>0.1 + 0.9 * 13 / 5 = 2.44\<close>.
\<close>

theorem segment_alpha_counterexample:
  "vectorField (processItem_env gale_dataset) \<lparr>px = Num (3 / 2), py = Num 1\<rparr>
     = Some \<lparr>px = Num 12, py = Num (- 5)\<rparr> \<and>
   onStreamlineAdded (processItem_env gale_dataset) []
      [\<lparr>px = Num 1, py = Num 1\<rparr>, \<lparr>px = Num 2, py = Num 1\<rparr>]
    = Inr [BeginPath, StrokeStyle (Rgba (Num 226) (Num 229) (Num 170) (Num (61 / 25))),
           MoveTo (Num 320) (Num 240), LineTo (Num 640) (Num 240), Stroke, ClosePath] \<and>
   \<not> jle (Num (61 / 25)) (Num 1)"
proof -
  have m: "maxVelocity (processItem_env gale_dataset) = Num 5"
    by (simp add: gale_env maxVelocity_def sqrt_25)
  have b: "boundingBox (processItem_env gale_dataset) =
     \<lparr>box_left = Num 0, box_top = Num 0, box_width = Num 4, box_height = Num 3\<rparr>"
    by (simp add: gale_env boundingBox_def of_count_def)
  have c: "getColor (processItem_env gale_dataset) (Num (3 / 2)) (Num 1)
      = Inr (Rgba (Num 226) (Num 229) (Num 170) (Num (61 / 25)))"
    by (simp add: getColor_def gale_sample m sqrt_169 last_stop)
  show ?thesis
    by (simp add: gale_sample drawSegment_def c b transform_defs)
qed

section \<open>A component whose maximum is its minimum\<close>

lemma normalise_degenerate: "\<not> is_finite (normalise w m m)"
  by (cases w; cases m) (auto simp: normalise_def jsub_def signed_def)

lemma denormalise_degenerate: "\<not> is_finite w \<Longrightarrow> denormalise w m m = NaN"
  by (cases w; cases m) (auto simp: denormalise_def jsub_def signed_def)

text \<open>A value normalised by a range of width zero and brought back is \<open>NaN\<close>, whatever
  the value and the bound.\<close>

lemma degenerate_round_trip: "denormalise (normalise w m m) m m = NaN"
  by (simp add: denormalise_degenerate normalise_degenerate)

text \<open>What is not finite stays so through a product, a sum and a mix.\<close>

lemma jmul_nonfinite: "\<not> is_finite a \<Longrightarrow> \<not> is_finite (jmul a b)" "\<not> is_finite a \<Longrightarrow> \<not> is_finite (jmul b a)"
  by (cases a; cases b; auto simp: signed_def)+

lemma jadd_nonfinite: "\<not> is_finite a \<Longrightarrow> \<not> is_finite (jadd a b)" "\<not> is_finite a \<Longrightarrow> \<not> is_finite (jadd b a)"
  by (cases a; cases b; auto)+

lemma mix_nonfinite_x: "\<not> is_finite (px a) \<Longrightarrow> \<not> is_finite (px (mix a b r))"
  by (simp add: mix_def jadd_nonfinite jmul_nonfinite)

lemma mix_nonfinite_y: "\<not> is_finite (py a) \<Longrightarrow> \<not> is_finite (py (mix a b r))"
  by (simp add: mix_def jadd_nonfinite jmul_nonfinite)


lemma parity_nonfinite_Nil: "parity_nonfinite b []"
  by (simp add: parity_nonfinite_def)

lemma parity_nonfinite_store:
  assumes "parity_nonfinite b a" "even i = b \<longrightarrow> \<not> is_finite w"
  shows "parity_nonfinite b (js_store a i w)"
  unfolding parity_nonfinite_def
proof (intro allI impI)
  fix k
  assume k: "k < length (js_store a i w)" and e: "even k = b"
  show "\<not> is_finite (js_store a i w ! k)"
  proof (cases "i < length a")
    case True
    with k e assms show ?thesis
      by (auto simp: parity_nonfinite_def js_store_def nth_list_update)
  next
    case False
    with k have "k < length a \<or> (length a \<le> k \<and> k < i) \<or> k = i"
      by (auto simp: js_store_def)
    with False e assms show ?thesis
      by (auto simp: parity_nonfinite_def js_store_def nth_append)
  qed
qed

lemma parity_nonfinite_cell:
  assumes "parity_nonfinite b a"
    and "b \<longrightarrow> maximum (data_u d) = minimum (data_u d)"
    and "\<not> b \<longrightarrow> maximum (data_v d) = minimum (data_v d)"
  shows "parity_nonfinite b (fill_cell d w row a col)"
  unfolding fill_cell_def Let_def
  using assms
  by (intro parity_nonfinite_store) (auto simp: normalise_degenerate)

lemma parity_nonfinite_foldl:
  assumes "\<And>a x. parity_nonfinite b a \<Longrightarrow> parity_nonfinite b (f a x)" "parity_nonfinite b a"
  shows "parity_nonfinite b (foldl f a xs)"
  using assms(2) by (induction xs arbitrary: a) (auto intro: assms(1))

lemma parity_nonfinite_grid:
  assumes "b \<longrightarrow> maximum (data_u d) = minimum (data_u d)"
    and "\<not> b \<longrightarrow> maximum (data_v d) = minimum (data_v d)"
  shows "parity_nonfinite b (fill_grid d w h)"
  unfolding fill_grid_def fill_row_def
  by (intro parity_nonfinite_foldl parity_nonfinite_cell parity_nonfinite_Nil assms)

lemma js_index_parity:
  assumes "parity_nonfinite b a" "even k = b"
  shows "\<not> is_finite (js_index a (Num (of_int k)))"
  using assms by (auto simp: parity_nonfinite_def even_nat_iff)

lemma js_index_nonfinite: "\<not> is_finite i \<Longrightarrow> js_index a i = NaN"
  by (cases i) auto

lemma whole_floor: "whole (jfloor w)" and whole_ceil: "whole (jceil w)"
  by (cases w; simp)+

lemma whole_cases: "whole w \<Longrightarrow> (\<exists>i. w = Num (of_int i)) \<or> \<not> is_finite w"
  by (cases w) (auto intro: sym)

lemma indices_whole:
  assumes "indices e p = (lx, ly, ux, uy)"
  shows "whole lx" "whole ly"
  using assms whole_floor whole_ceil
  by (auto simp: indices_def Let_def split: if_splits)

lemma getXY_parity:
  assumes "whole col" "whole row" "getXY e col row = Some g"
  shows "parity_nonfinite True (vfData e) \<Longrightarrow> \<not> is_finite (px g)"
    and "parity_nonfinite False (vfData e) \<Longrightarrow> \<not> is_finite (py g)"
proof -
  let ?idx = "jmul (jadd col (jmul row (of_count (width e)))) (Num 2)"
  from assms(3) have g: "px g = js_index (vfData e) ?idx" "py g = js_index (vfData e) (jadd ?idx (Num 1))"
    by (auto simp: getXY_def Let_def split: if_splits)
  consider (int) i j where "col = Num (of_int i)" "row = Num (of_int j)"
    | (non) "\<not> is_finite col \<or> \<not> is_finite row"
    using whole_cases [OF assms(1)] whole_cases [OF assms(2)] by auto
  then have "(\<exists>k. ?idx = Num (of_int (2 * k))) \<or> \<not> is_finite ?idx"
  proof cases
    case int
    then have "?idx = Num (of_int (2 * (i + j * width e)))" by (simp add: of_count_def)
    then show ?thesis by blast
  next
    case non
    then have "\<not> is_finite ?idx"
      by (cases col; cases row) (auto simp: of_count_def signed_def)
    then show ?thesis ..
  qed
  then consider (ev) k where "?idx = Num (of_int (2 * k))" | (nf) "\<not> is_finite ?idx" by blast
  note c = this
  show "parity_nonfinite True (vfData e) \<Longrightarrow> \<not> is_finite (px g)"
  proof -
    assume p: "parity_nonfinite True (vfData e)"
    from c show ?thesis
    proof cases
      case ev
      have "\<not> is_finite (js_index (vfData e) (Num (of_int (2 * k))))"
        using p by (rule js_index_parity) simp
      with ev g show ?thesis by simp
    next
      case nf
      with g show ?thesis by (simp add: js_index_nonfinite)
    qed
  qed
  show "parity_nonfinite False (vfData e) \<Longrightarrow> \<not> is_finite (py g)"
  proof -
    assume p: "parity_nonfinite False (vfData e)"
    from c show ?thesis
    proof cases
      case ev
      have "\<not> is_finite (js_index (vfData e) (Num (of_int (2 * k + 1))))"
        using p by (rule js_index_parity) simp
      with ev g show ?thesis by simp
    next
      case nf
      then have "\<not> is_finite (jadd ?idx (Num 1))" by (simp add: jadd_nonfinite)
      with g show ?thesis by (simp add: js_index_nonfinite)
    qed
  qed
qed

lemma vectorField_parts:
  assumes "vectorField e p = Some w"
  obtains lx ly ux uy tl' tr' bl' br' r1 r2 where
    "indices e p = (lx, ly, ux, uy)"
    "getXY e lx ly = Some tl'"
    "w = \<lparr>px = jneg (denormalise (px (mix (mix tl' tr' r1) (mix bl' br' r1) r2)) (uMin e) (uMax e)),
          py = denormalise (py (mix (mix tl' tr' r1) (mix bl' br' r1) r2)) (vMin e) (vMax e)\<rparr>"
proof -
  obtain lx ly ux uy where i: "indices e p = (lx, ly, ux, uy)"
    by (cases "indices e p") auto
  with assms show ?thesis
    by (auto simp: vectorField_def Let_def split: if_splits option.splits intro: that)
qed

text \<open>
  Claim C5, as amended. For every dataset with \<open>maximum = minimum\<close> for a component,
  every sample the sampler returns has \<open>NaN\<close> for that component (not the shared
  minimum): the normalisation divides by zero, and the product with the zero range is
  \<open>NaN\<close>.
\<close>

theorem degenerate_range_sample:
  assumes "vectorField (processItem_env d) p = Some w"
  shows "(maximum (data_u d) = minimum (data_u d) \<longrightarrow> px w = NaN) \<and>
         (maximum (data_v d) = minimum (data_v d) \<longrightarrow> py w = NaN)"
proof -
  let ?e = "processItem_env d"
  from assms obtain lx ly ux uy tl' tr' bl' br' r1 r2 where
    i: "indices ?e p = (lx, ly, ux, uy)" and
    t: "getXY ?e lx ly = Some tl'" and
    w: "w = \<lparr>px = jneg (denormalise (px (mix (mix tl' tr' r1) (mix bl' br' r1) r2)) (uMin ?e) (uMax ?e)),
          py = denormalise (py (mix (mix tl' tr' r1) (mix bl' br' r1) r2)) (vMin ?e) (vMax ?e)\<rparr>"
    by (rule vectorField_parts)
  have wh: "whole lx" "whole ly" using i by (rule indices_whole)+
  have vf: "vfData ?e = fill_grid d (Ni (data_u d)) (Nj (data_u d) - 1)"
    by (simp add: processItem_env_def)
  have r: "uMin ?e = minimum (data_u d)" "uMax ?e = maximum (data_u d)"
     "vMin ?e = minimum (data_v d)" "vMax ?e = maximum (data_v d)"
    by (simp_all add: processItem_env_def)
  show ?thesis
  proof (intro conjI impI)
    assume m: "maximum (data_u d) = minimum (data_u d)"
    then have "parity_nonfinite True (vfData ?e)"
      unfolding vf by (intro parity_nonfinite_grid) simp_all
    with wh t have "\<not> is_finite (px tl')" by (rule getXY_parity(1))
    then have "\<not> is_finite (px (mix (mix tl' tr' r1) (mix bl' br' r1) r2))"
      by (intro mix_nonfinite_x)
    then show "px w = NaN"
      by (simp add: w r m denormalise_degenerate)
  next
    assume m: "maximum (data_v d) = minimum (data_v d)"
    then have "parity_nonfinite False (vfData ?e)"
      unfolding vf by (intro parity_nonfinite_grid) simp_all
    with wh t have "\<not> is_finite (py tl')" by (rule getXY_parity(2))
    then have "\<not> is_finite (py (mix (mix tl' tr' r1) (mix bl' br' r1) r2))"
      by (intro mix_nonfinite_y)
    then show "py w = NaN"
      by (simp add: w r m denormalise_degenerate)
  qed
qed


lemma flat_sample:
  "vectorField (processItem_env flat_dataset) \<lparr>px = Num 1, py = Num 1\<rparr>
     = Some \<lparr>px = Num (- 4), py = NaN\<rparr>"
  unfolding flat_env by (simp add: sampler_defs)

theorem degenerate_range_sample_witness:
  "vectorField (processItem_env flat_dataset) \<lparr>px = Num 1, py = Num 1\<rparr>
     = Some \<lparr>px = Num (- 4), py = NaN\<rparr> \<and>
   maximum (data_v flat_dataset) = minimum (data_v flat_dataset) \<and>
   py \<lparr>px = Num (- 4), py = NaN\<rparr> = NaN"
proof -
  have m: "maximum (data_v flat_dataset) = minimum (data_v flat_dataset)"
    by (simp add: flat_dataset_def)
  from degenerate_range_sample [OF flat_sample] m flat_sample show ?thesis by blast
qed

text \<open>
  Claim C5 as it is written fails on \<open>flat_dataset\<close>, whose component \<open>v\<close> is 3
  everywhere: the value 3, normalised and brought back, is \<open>NaN\<close>, and so is the second
  component of the sample at \<open>(1, 1)\<close>.
\<close>

theorem degenerate_range_counterexample:
  "maximum (data_v flat_dataset) = minimum (data_v flat_dataset) \<and>
   minimum (data_v flat_dataset) = Num 3 \<and>
   denormalise (normalise (Num 3) (Num 3) (Num 3)) (Num 3) (Num 3) = NaN \<and>
   vectorField (processItem_env flat_dataset) \<lparr>px = Num 1, py = Num 1\<rparr>
     = Some \<lparr>px = Num (- 4), py = NaN\<rparr> \<and>
   NaN \<noteq> Num 3"
  by (simp add: flat_sample degenerate_round_trip) (simp add: flat_dataset_def)

end
